theory Spec2Isabelle
  imports Complex_Main "HOL-Library.Log_Nat"
begin

section \<open>Data model\<close>

text \<open>
  The repository holds several variants of one React component, \<open>LidarVisualization\<close>:
  \<^item> \<open>static/lidar-viz.js\<close> and \<open>unnamed/part_003\<close> (identical logic): polling fetcher
    that keeps the raw threshold, renderer with gate arcs and coloured points;
  \<^item> \<open>unnamed/part_000\<close> and \<open>unnamed/part_004\<close> (identical fetcher): polling fetcher that
    divides the threshold by 10 and clears the error on success;
  \<^item> \<open>unnamed/part_001\<close>: polling fetcher that updates scan data and threshold also for
    an error payload, renderer with a threshold circle;
  \<^item> \<open>lidar-viz.js\<close>: WebSocket variant, renderer with a threshold circle.
  Each function below is named after the source function and suffixed with its file.

  A JavaScript number is the real it denotes; a number that is \<open>undefined\<close> or \<open>NaN\<close>
  is \<open>None\<close>. The products and quotients by 10 (\<open>point.distance * 10\<close>,
  \<open>threshold / 10 * scale\<close>, \<open>data.threshold / 10\<close>), whose results are compared or stored,
  are rounded as IEEE 754 doubles (\<open>jmul\<close>, \<open>jdiv\<close> below). The coordinates handed to the
  canvas (half the canvas size, an offset times \<open>scale\<close> added to the centre) are kept as
  the exact values of the source expressions.
\<close>

section \<open>Double arithmetic\<close>

text \<open>
  Rounding to the nearest double, ties to the even significand. \<open>ilog2 a\<close> is the
  exponent of the power of two at or below \<open>a > 0\<close>; a double near \<open>x\<close> is an integer
  multiple of \<open>2 powi ulp_exponent x\<close>, with 53 bits of significand, or with fewer below
  the smallest normal number (exponent \<open>- 1074\<close>). A result beyond the largest double,
  which JavaScript gives as \<open>Infinity\<close>, stays a finite number beyond every double here,
  so that it compares with doubles as the infinity does.
\<close>

definition ilog2 :: "real \<Rightarrow> int" where
  "ilog2 a = (if 1 \<le> a then bitlen \<lfloor>a\<rfloor> - 1 else - bitlen (\<lceil>1 / a\<rceil> - 1))"

definition ulp_exponent :: "real \<Rightarrow> int" where
  "ulp_exponent x = max (- 1074) (ilog2 \<bar>x\<bar> - 52)"

definition round_half_even :: "real \<Rightarrow> int" where
  "round_half_even y =
     (let n = \<lfloor>y\<rfloor> in
      if y - of_int n < 1 / 2 then n
      else if 1 / 2 < y - of_int n then n + 1
      else if even n then n else n + 1)"

definition to_double :: "real \<Rightarrow> real" where
  "to_double x =
     (if x = 0 then 0
      else of_int (round_half_even (x / 2 powi ulp_exponent x)) * 2 powi ulp_exponent x)"

text \<open>The operators \<open>*\<close> and \<open>/\<close> of JavaScript on two doubles.\<close>

definition jmul :: "real \<Rightarrow> real \<Rightarrow> real" where
  "jmul a b = to_double (a * b)"

definition jdiv :: "real \<Rightarrow> real \<Rightarrow> real" where
  "jdiv a b = to_double (a / b)"

section \<open>Responses and state\<close>

text \<open>One element of \<open>data.scan\<close>: \<open>{angle, distance}\<close> or \<open>{x, y, angle, distance}\<close>.
  The fields \<open>x\<close> and \<open>y\<close> are \<open>x_coord\<close> and \<open>y_coord\<close> here.\<close>

record point =
  angle :: real
  distance :: real
  x_coord :: "real option"
  y_coord :: "real option"

text \<open>The JSON body of \<open>/lidar/data\<close>; every field may be missing.\<close>

record payload =
  error_field :: "string option"
  scan :: "point list option"
  threshold_field :: "real option"

text \<open>What \<open>await fetch(...)\<close> followed by \<open>await response.json()\<close> yields: either an
  exception inside the \<open>try\<close> block (network failure, body that is not JSON, body that
  is \<open>null\<close>) carrying \<open>err.message\<close>, or the parsed body.\<close>

datatype response = Thrown string | Json payload

text \<open>The three \<open>useState\<close> cells of the component.\<close>

record viz_state =
  scanData :: "point list option"
  threshold :: "real option"
  error :: "string option"

text \<open>A call of one of the three state setters, with its argument.\<close>

datatype setter_call =
    SetError "string option"
  | SetScanData "point list option"
  | SetThreshold "real option"

text \<open>\<open>if (data.error)\<close>: a missing field and the empty string are falsy.\<close>

definition truthy :: "string option \<Rightarrow> bool" where
  "truthy e = (case e of None \<Rightarrow> False | Some s \<Rightarrow> s \<noteq> [])"

text \<open>\<open>data.scan || []\<close>: an array is truthy even when empty.\<close>

definition scan_or_empty :: "point list option \<Rightarrow> point list" where
  "scan_or_empty s = (case s of None \<Rightarrow> [] | Some pts \<Rightarrow> pts)"

text \<open>\<open>data.threshold / 10\<close>; \<open>undefined / 10\<close> is \<open>NaN\<close>.\<close>

definition div10 :: "real option \<Rightarrow> real option" where
  "div10 t = (case t of None \<Rightarrow> None | Some v \<Rightarrow> Some (jdiv v 10))"

section \<open>The fetch handlers\<close>

text \<open>
  The setters of the success branch stand inside the \<open>try\<close> block. In
  \<open>static/lidar-viz.js\<close> the component is mounted with \<open>ReactDOM.render\<close> (line 118), where
  a setter called from the fetch continuation re-renders before it returns: the first
  setter leaves the drawing effect pending, and the second setter's re-render runs that
  effect first. When the effect raises there (\<open>scanData.forEach\<close> on a payload without
  \<open>scan\<close>, line 67), the exception leaves \<open>setThreshold\<close> and reaches the \<open>catch\<close>.
  \<open>Returned\<close>: both setters returned; \<open>Raised message\<close>: the second one raised.
\<close>

datatype setters = Returned | Raised string

text \<open>\<open>fetchData\<close> of \<open>static/lidar-viz.js\<close> (lines 11-25) and of \<open>part_003\<close> (lines 10-24):
  the setter calls made once the request has completed.\<close>

definition fetchData_static :: "setters \<Rightarrow> response \<Rightarrow> setter_call list" where
  "fetchData_static outcome r =
     (case r of
        Thrown message \<Rightarrow> [SetError (Some (''Failed to fetch LIDAR data: '' @ message))]
      | Json data \<Rightarrow>
          if truthy (error_field data) then [SetError (error_field data)]
          else [SetScanData (scan data), SetThreshold (threshold_field data)]
               @ (case outcome of
                    Returned \<Rightarrow> []
                  | Raised message \<Rightarrow>
                      [SetError (Some (''Failed to fetch LIDAR data: '' @ message))]))"

text \<open>\<open>fetchData\<close> of \<open>part_000\<close> (lines 10-25) and of \<open>part_004\<close> (lines 12-27).\<close>

definition fetchData_part_000 :: "response \<Rightarrow> setter_call list" where
  "fetchData_part_000 r =
     (case r of
        Thrown message \<Rightarrow> [SetError (Some ''Failed to fetch LIDAR data'')]
      | Json data \<Rightarrow>
          if truthy (error_field data) then [SetError (error_field data)]
          else [SetError None,
                SetScanData (Some (scan_or_empty (scan data))),
                SetThreshold (div10 (threshold_field data))])"

text \<open>\<open>fetchData\<close> of \<open>part_001\<close> (lines 12-28): the scan data and the threshold are set
  after the \<open>if\<close>/\<open>else\<close>, on both branches.\<close>

definition fetchData_part_001 :: "response \<Rightarrow> setter_call list" where
  "fetchData_part_001 r =
     (case r of
        Thrown message \<Rightarrow> [SetError (Some ''Failed to fetch LIDAR data'')]
      | Json data \<Rightarrow>
          (if truthy (error_field data) then [SetError (error_field data)]
           else [SetError None])
          @ [SetScanData (Some (scan_or_empty (scan data))),
             SetThreshold (div10 (threshold_field data))])"

text \<open>The effect of the setter calls on the held state, in call order.\<close>

fun apply_call :: "viz_state \<Rightarrow> setter_call \<Rightarrow> viz_state" where
  "apply_call s (SetError e) = s\<lparr>error := e\<rparr>"
| "apply_call s (SetScanData d) = s\<lparr>scanData := d\<rparr>"
| "apply_call s (SetThreshold t) = s\<lparr>threshold := t\<rparr>"

definition deliver :: "setter_call list \<Rightarrow> viz_state \<Rightarrow> viz_state" where
  "deliver cs s = foldl apply_call s cs"

text \<open>The initial state: \<open>useState([])\<close>, \<open>useState(1000)\<close>, \<open>useState(null)\<close> in
  \<open>static/lidar-viz.js\<close> and \<open>part_003\<close>; the threshold starts at 100 in the others.\<close>

definition initial_static :: viz_state where
  "initial_static = \<lparr>scanData = Some [], threshold = Some 1000, error = None\<rparr>"

definition initial_part_000 :: viz_state where
  "initial_part_000 = \<lparr>scanData = Some [], threshold = Some 100, error = None\<rparr>"

section \<open>The renderer\<close>

text \<open>\<open>const scale = 2\<close> in every variant.\<close>

definition scale :: real where
  "scale = 2"

text \<open>\<open>isInGateArea\<close> of \<open>static/lidar-viz.js\<close> (line 68) and \<open>part_003\<close> (line 67), a
  function of the point and of the held threshold. The product is a double product. A
  comparison with \<open>undefined\<close> is false.\<close>

definition isInGateArea :: "point \<Rightarrow> real option \<Rightarrow> bool" where
  "isInGateArea p thr =
     (case thr of
        None \<Rightarrow> False
      | Some t \<Rightarrow> (angle p < 10 \<or> angle p > 350) \<and> jmul (distance p) 10 < t)"

text \<open>The drawing surface, \<open>canvasRef.current\<close>; \<open>None\<close> is \<open>null\<close>.\<close>

record canvas =
  width :: real
  height :: real

text \<open>What a render pass puts on the canvas, in order, each operation with the context
  styles in force. \<open>StrokeArc\<close> is \<open>beginPath; arc; stroke\<close>, \<open>FillArc\<close> is
  \<open>beginPath; arc; fill\<close>, \<open>FillSector\<close> is \<open>beginPath; moveTo(centre); arc;
  lineTo(centre); fill\<close>. The text of \<open>fillText\<close> is a string, a number, or the
  template \<open>`${r}cm`\<close>. Arguments: \<open>ClearRect x y w h\<close>, \<open>FillRect fillStyle x y w h\<close>,
  \<open>StrokeArc strokeStyle lineWidth x y radius startAngle endAngle\<close>,
  \<open>FillArc fillStyle x y radius startAngle endAngle\<close>, \<open>FillSector\<close> likewise,
  \<open>FillText font fillStyle text x y\<close>.\<close>

datatype text_arg = Str string | Num real | NumCm int

datatype drawop =
    ClearRect real real real real
  | FillRect string real real real real
  | StrokeArc string real real real real real real
  | FillArc string real real real real real
  | FillSector string real real real real real
  | FillText string string text_arg real real

text \<open>\<open>scanData.forEach\<close> on \<open>undefined\<close> raises a TypeError; \<open>ctx.arc\<close> with a
  negative radius raises an IndexSizeError, and with a \<open>NaN\<close> argument it adds nothing to
  the path.\<close>

datatype js_error = TypeError | IndexSizeError

text \<open>The gate arcs of \<open>static/lidar-viz.js\<close> (lines 58-64) and \<open>part_003\<close> (lines 57-63),
  at the radius \<open>threshold / 10 * scale\<close>.\<close>

definition gateArcRadius :: "real \<Rightarrow> real" where
  "gateArcRadius t = jmul (jdiv t 10) scale"

definition gateArcs :: "real \<Rightarrow> real \<Rightarrow> real option \<Rightarrow> js_error + drawop list" where
  "gateArcs centerX centerY thr =
     (case thr of
        None \<Rightarrow> Inr []
      | Some t \<Rightarrow>
          if gateArcRadius t < 0 then Inl IndexSizeError
          else Inr [StrokeArc ''#ffc107'' 1 centerX centerY (gateArcRadius t) (- pi / 18) (pi / 18),
                    StrokeArc ''#ffc107'' 1 centerX centerY (gateArcRadius t)
                      (pi - pi / 18) (pi + pi / 18)])"

text \<open>One scan point of \<open>static/lidar-viz.js\<close> (lines 67-80) and \<open>part_003\<close> (lines 66-79):
  the fill colour, and the dot at \<open>(centerX + point.x * scale, centerY - point.y * scale)\<close>.
  A point without \<open>x\<close> or \<open>y\<close> gives \<open>NaN\<close> and draws nothing.\<close>

definition pointFillStyle :: "point \<Rightarrow> real option \<Rightarrow> string" where
  "pointFillStyle p thr = (if isInGateArea p thr then ''#dc3545'' else ''#0d6efd'')"

definition pointCentre_static :: "real \<Rightarrow> real \<Rightarrow> point \<Rightarrow> (real \<times> real) option" where
  "pointCentre_static centerX centerY p =
     (case (x_coord p, y_coord p) of
        (Some px, Some py) \<Rightarrow> Some (centerX + px * scale, centerY - py * scale)
      | _ \<Rightarrow> None)"

definition drawPoint_static :: "real \<Rightarrow> real \<Rightarrow> real option \<Rightarrow> point \<Rightarrow> drawop list" where
  "drawPoint_static centerX centerY thr p =
     (case pointCentre_static centerX centerY p of
        None \<Rightarrow> []
      | Some (sx, sy) \<Rightarrow> [FillArc (pointFillStyle p thr) sx sy 2 0 (2 * pi)])"

text \<open>The legend of \<open>static/lidar-viz.js\<close> (lines 83-88) and \<open>part_003\<close> (lines 82-87).\<close>

definition legend :: "drawop list" where
  "legend =
     FillText ''12px Arial'' ''#495057'' (Str ''Distance (cm):'') 10 20 #
     map (\<lambda>(radius, index).
            FillText ''12px Arial'' ''#495057'' (Num (radius * 10)) 10 (40 + index * 20))
         (zip [50, 100, 150, 200] [0, 1, 2, 3])"

text \<open>The drawing effect of \<open>static/lidar-viz.js\<close> (lines 34-90) and \<open>part_003\<close>
  (lines 33-89).\<close>

definition render_static ::
  "canvas option \<Rightarrow> point list option \<Rightarrow> real option \<Rightarrow> js_error + drawop list" where
  "render_static canvasRef scanData_now threshold_now =
     (case canvasRef of
        None \<Rightarrow> Inr []
      | Some cv \<Rightarrow>
          let centerX = width cv / 2;
              centerY = height cv / 2;
              background = [FillRect ''#f8f9fa'' 0 0 (width cv) (height cv)];
              circles = map (\<lambda>radius. StrokeArc ''#dee2e6'' 1 centerX centerY
                                         (radius * scale) 0 (2 * pi))
                            [50, 100, 150, 200]
          in (case gateArcs centerX centerY threshold_now of
                Inl e \<Rightarrow> Inl e
              | Inr arcs \<Rightarrow>
                  (case scanData_now of
                     None \<Rightarrow> Inl TypeError
                   | Some pts \<Rightarrow>
                       Inr (background @ circles @ arcs
                            @ concat (map (drawPoint_static centerX centerY threshold_now) pts)
                            @ legend))))"

text \<open>The drawing effect of \<open>part_000\<close> (lines 33-50): the canvas is cleared; the rest of
  the drawing is left out in that file.\<close>

definition render_part_000 :: "canvas option \<Rightarrow> js_error + drawop list" where
  "render_part_000 canvasRef =
     (case canvasRef of
        None \<Rightarrow> Inr []
      | Some cv \<Rightarrow> Inr [ClearRect 0 0 (width cv) (height cv)])"

text \<open>The loop \<open>for (let r = 50; r <= 300; r += 50)\<close> of \<open>lidar-viz.js\<close> (line 58) and
  \<open>part_001\<close> (line 54).\<close>

function grid_loop :: "(int \<Rightarrow> drawop list) \<Rightarrow> int \<Rightarrow> drawop list" where
  "grid_loop body r = (if r \<le> 300 then body r @ grid_loop body (r + 50) else [])"
  by pat_completeness auto
termination
  by (relation "measure (\<lambda>(body, r). nat (301 - r))") auto

declare grid_loop.simps [simp del]

text \<open>One scan point of \<open>lidar-viz.js\<close> (lines 73-80) and \<open>part_001\<close> (lines 74-81): the
  dot at \<open>(centerX + point.x * scale, centerY + point.y * scale)\<close>.\<close>

definition pointCentre_ws :: "real \<Rightarrow> real \<Rightarrow> point \<Rightarrow> (real \<times> real) option" where
  "pointCentre_ws centerX centerY p =
     (case (x_coord p, y_coord p) of
        (Some px, Some py) \<Rightarrow> Some (centerX + px * scale, centerY + py * scale)
      | _ \<Rightarrow> None)"

definition drawPoint_ws :: "real \<Rightarrow> real \<Rightarrow> point \<Rightarrow> drawop list" where
  "drawPoint_ws centerX centerY p =
     (case pointCentre_ws centerX centerY p of
        None \<Rightarrow> []
      | Some (sx, sy) \<Rightarrow> [FillArc ''#3498db'' sx sy 2 0 (2 * pi)])"

text \<open>The threshold circle and the two detection sectors of \<open>lidar-viz.js\<close> (lines 65-69,
  83-94) and \<open>part_001\<close> (lines 66-70, 84-95), at the radius \<open>threshold * scale\<close>.\<close>

definition thresholdCircle :: "real \<Rightarrow> real \<Rightarrow> real \<Rightarrow> drawop list" where
  "thresholdCircle centerX centerY t =
     [StrokeArc ''#e74c3c'' 2 centerX centerY (t * scale) 0 (2 * pi)]"

definition detectionZone :: "real \<Rightarrow> real \<Rightarrow> real \<Rightarrow> drawop list" where
  "detectionZone centerX centerY t =
     [FillSector ''rgba(46, 204, 113, 0.2)'' centerX centerY (t * scale) (- pi / 18) (pi / 18),
      FillSector ''rgba(46, 204, 113, 0.2)'' centerX centerY (t * scale)
        (pi - pi / 18) (pi + pi / 18)]"

text \<open>The drawing effect of \<open>lidar-viz.js\<close> (lines 39-96). Its state always holds an
  array and a number (\<open>data.scan || []\<close>, \<open>data.threshold || 100\<close>).\<close>

definition render_ws :: "canvas option \<Rightarrow> point list \<Rightarrow> real \<Rightarrow> js_error + drawop list" where
  "render_ws canvasRef scanData_now threshold_now =
     (case canvasRef of
        None \<Rightarrow> Inr []
      | Some cv \<Rightarrow>
          if length scanData_now = 0 then Inr []
          else
            let centerX = width cv / 2;
                centerY = height cv / 2;
                grid = grid_loop (\<lambda>r. [StrokeArc ''#2c3e50'' 0.5 centerX centerY
                                            (of_int r * scale) 0 (2 * pi)]) 50
            in if threshold_now * scale < 0 then Inl IndexSizeError
               else Inr ([ClearRect 0 0 (width cv) (height cv)] @ grid
                         @ thresholdCircle centerX centerY threshold_now
                         @ concat (map (drawPoint_ws centerX centerY) scanData_now)
                         @ detectionZone centerX centerY threshold_now))"

text \<open>The drawing effect of \<open>part_001\<close> (lines 35-97): no test of the scan length, a
  label beside every grid circle. With a \<open>NaN\<close> threshold the circle and the sectors'
  arcs add nothing to the path.\<close>

definition render_part_001 ::
  "canvas option \<Rightarrow> point list option \<Rightarrow> real option \<Rightarrow> js_error + drawop list" where
  "render_part_001 canvasRef scanData_now threshold_now =
     (case canvasRef of
        None \<Rightarrow> Inr []
      | Some cv \<Rightarrow>
          let centerX = width cv / 2;
              centerY = height cv / 2;
              grid = grid_loop (\<lambda>r. [StrokeArc ''#2c3e50'' 0.5 centerX centerY
                                          (of_int r * scale) 0 (2 * pi),
                                        FillText ''12px Arial'' ''#2c3e50'' (NumCm r)
                                          (centerX + of_int r * scale) centerY]) 50
          in (case threshold_now of
                None \<Rightarrow>
                  (case scanData_now of
                     None \<Rightarrow> Inl TypeError
                   | Some pts \<Rightarrow>
                       Inr ([ClearRect 0 0 (width cv) (height cv)] @ grid
                            @ concat (map (drawPoint_ws centerX centerY) pts)))
              | Some t \<Rightarrow>
                  (if t * scale < 0 then Inl IndexSizeError
                   else (case scanData_now of
                           None \<Rightarrow> Inl TypeError
                         | Some pts \<Rightarrow>
                             Inr ([ClearRect 0 0 (width cv) (height cv)] @ grid
                                  @ thresholdCircle centerX centerY t
                                  @ concat (map (drawPoint_ws centerX centerY) pts)
                                  @ detectionZone centerX centerY t)))))"

section \<open>The polling schedule\<close>

text \<open>
  The first effect of the polling variants. \<open>fetchData\<close> is asynchronous: calling it
  issues the request and returns; its continuation (the handlers above) runs when the
  request completes. The schedule is a machine over three events: the interval timer
  fires, a request in flight completes with a response, the effect's cleanup runs.
  \<open>issued\<close> counts the requests sent, \<open>calls\<close> logs the setter calls made.
\<close>

record fetcher =
  interval_active :: bool
  in_flight :: nat
  issued :: nat
  calls :: "setter_call list"

datatype event = Tick | Completes response | Cleanup

definition call_fetchData :: "fetcher \<Rightarrow> fetcher" where
  "call_fetchData f = f\<lparr>in_flight := Suc (in_flight f), issued := Suc (issued f)\<rparr>"

definition before_mount :: fetcher where
  "before_mount = \<lparr>interval_active = False, in_flight = 0, issued = 0, calls = []\<rparr>"

text \<open>\<open>static/lidar-viz.js\<close> (lines 27-28), \<open>part_003\<close> (lines 26-27):
  \<open>fetchData(); const interval = setInterval(fetchData, 100);\<close>\<close>

definition mount_static :: fetcher where
  "mount_static = (call_fetchData before_mount)\<lparr>interval_active := True\<rparr>"

text \<open>\<open>part_000\<close> (line 28), \<open>part_001\<close> (line 31), \<open>part_004\<close> (line 30):
  \<open>const interval = setInterval(fetchData, 100);\<close> alone.\<close>

definition mount_part_000 :: fetcher where
  "mount_part_000 = before_mount\<lparr>interval_active := True\<rparr>"

text \<open>One event; \<open>handler\<close> is the variant's \<open>fetchData\<close> continuation. The cleanup is
  \<open>clearInterval(interval)\<close> and nothing else.\<close>

fun step :: "(response \<Rightarrow> setter_call list) \<Rightarrow> fetcher \<Rightarrow> event \<Rightarrow> fetcher" where
  "step handler f Tick = (if interval_active f then call_fetchData f else f)"
| "step handler f (Completes r) =
     (if in_flight f = 0 then f
      else f\<lparr>in_flight := in_flight f - 1, calls := calls f @ handler r\<rparr>)"
| "step handler f Cleanup = f\<lparr>interval_active := False\<rparr>"

definition run :: "(response \<Rightarrow> setter_call list) \<Rightarrow> fetcher \<Rightarrow> event list \<Rightarrow> fetcher" where
  "run handler f evs = foldl (step handler) f evs"

text \<open>\<open>canvasRef.current\<close> as the drawing effect finds it. The cleanup runs when the
  component is unmounted, and the reference of an unmounted canvas is \<open>null\<close>. While
  mounted, \<open>static/lidar-viz.js\<close> (lines 95-105) and \<open>part_003\<close> (lines 97-108) render the
  canvas only when no error is held; \<open>part_000\<close> (lines 60-65) renders it always.\<close>

definition canvasRef_static :: "canvas \<Rightarrow> fetcher \<Rightarrow> viz_state \<Rightarrow> canvas option" where
  "canvasRef_static cv f s =
     (if interval_active f \<and> \<not> truthy (error s) then Some cv else None)"

definition canvasRef_part_000 :: "canvas \<Rightarrow> fetcher \<Rightarrow> canvas option" where
  "canvasRef_part_000 cv f = (if interval_active f then Some cv else None)"

section \<open>Outcomes of a request\<close>

text \<open>A request failed when it raised or when its payload carries a truthy \<open>error\<close>.\<close>

definition failed :: "response \<Rightarrow> bool" where
  "failed r = (case r of Thrown message \<Rightarrow> True | Json data \<Rightarrow> truthy (error_field data))"

text \<open>The two outcomes seen in a handler's setter calls: an error message was set; the
  scan data or the threshold was set.\<close>

fun is_error_report :: "setter_call \<Rightarrow> bool" where
  "is_error_report (SetError (Some m)) = True"
| "is_error_report c = False"

fun is_snapshot_update :: "setter_call \<Rightarrow> bool" where
  "is_snapshot_update (SetScanData d) = True"
| "is_snapshot_update (SetThreshold t) = True"
| "is_snapshot_update c = False"

definition reports_error :: "setter_call list \<Rightarrow> bool" where
  "reports_error cs = (filter is_error_report cs \<noteq> [])"

definition updates_snapshot :: "setter_call list \<Rightarrow> bool" where
  "updates_snapshot cs = (filter is_snapshot_update cs \<noteq> [])"

section \<open>Observations used in the properties\<close>

text \<open>The centres of the dots (\<open>beginPath; arc; fill\<close>) of a render pass, in drawing
  order.\<close>

fun dot_centres :: "drawop list \<Rightarrow> (real \<times> real) list" where
  "dot_centres [] = []"
| "dot_centres (FillArc style sx sy radius a0 a1 # ops) = (sx, sy) # dot_centres ops"
| "dot_centres (other # ops) = dot_centres ops"

text \<open>The fill styles of the dots of a render pass, in drawing order, and the radii of
  the arcs stroked in a given style.\<close>

fun dot_styles :: "drawop list \<Rightarrow> string list" where
  "dot_styles [] = []"
| "dot_styles (FillArc style sx sy radius a0 a1 # ops) = style # dot_styles ops"
| "dot_styles (other # ops) = dot_styles ops"

fun arc_radii :: "string \<Rightarrow> drawop list \<Rightarrow> real list" where
  "arc_radii style [] = []"
| "arc_radii style (StrokeArc style' lw sx sy radius a0 a1 # ops) =
     (if style' = style then radius # arc_radii style ops else arc_radii style ops)"
| "arc_radii style (other # ops) = arc_radii style ops"

text \<open>A point that carries the precomputed offsets \<open>x\<close> and \<open>y\<close>.\<close>

definition has_offsets :: "point \<Rightarrow> bool" where
  "has_offsets p = (x_coord p \<noteq> None \<and> y_coord p \<noteq> None)"

text \<open>The classification in the words of the specification, for comparison with
  \<open>isInGateArea\<close>: the distance, in the unit of the normalized threshold, is below that
  threshold, and the bearing is below 10 or above 350.\<close>

definition isInGateZone_spec :: "point \<Rightarrow> real option \<Rightarrow> bool" where
  "isInGateZone_spec p gateThreshold =
     (case gateThreshold of
        None \<Rightarrow> False
      | Some g \<Rightarrow> distance p < g \<and> (angle p < 10 \<or> angle p > 350))"

section \<open>Auxiliary facts\<close>

lemma run_Nil: "run handler f [] = f"
  by (simp add: run_def)

lemma run_Cons: "run handler f (e # evs) = run handler (step handler f e) evs"
  by (simp add: run_def)

text \<open>Once the interval is cleared, no event issues a request or revives the timer.\<close>

lemma run_inactive:
  "\<not> interval_active f \<Longrightarrow>
     issued (run handler f evs) = issued f
     \<and> \<not> interval_active (run handler f evs)
     \<and> in_flight (run handler f evs) \<le> in_flight f"
proof (induction evs arbitrary: f)
  case Nil
  then show ?case by (simp add: run_Nil)
next
  case (Cons e evs)
  have st: "\<not> interval_active (step handler f e) \<and> issued (step handler f e) = issued f
            \<and> in_flight (step handler f e) \<le> in_flight f"
    using Cons.prems by (cases e) auto
  from Cons.IH [of "step handler f e"] st show ?case
    by (simp add: run_Cons)
qed

lemma dot_centres_append: "dot_centres (xs @ ys) = dot_centres xs @ dot_centres ys"
  by (induction xs rule: dot_centres.induct) simp_all

lemma dot_centres_grid_loop:
  "(\<And>k. dot_centres (body k) = []) \<Longrightarrow> dot_centres (grid_loop body r) = []"
proof (induction body r rule: grid_loop.induct)
  case (1 body r)
  then show ?case
    by (subst grid_loop.simps) (simp add: dot_centres_append)
qed

lemma dot_centres_legend: "dot_centres legend = []"
  by (simp add: legend_def)

lemma dot_centres_gateArcs: "gateArcs cx cy thr = Inr arcs \<Longrightarrow> dot_centres arcs = []"
  by (auto simp: gateArcs_def split: option.splits if_splits)

lemma dot_centres_static_points:
  "list_all has_offsets pts \<Longrightarrow>
   dot_centres (concat (map (drawPoint_static cx cy thr) pts))
     = map (\<lambda>p. (cx + the (x_coord p) * scale, cy - the (y_coord p) * scale)) pts"
  by (induction pts)
     (auto simp: dot_centres_append drawPoint_static_def pointCentre_static_def has_offsets_def)

lemma dot_centres_ws_points:
  "list_all has_offsets pts \<Longrightarrow>
   dot_centres (concat (map (drawPoint_ws cx cy) pts))
     = map (\<lambda>p. (cx + the (x_coord p) * scale, cy + the (y_coord p) * scale)) pts"
  by (induction pts)
     (auto simp: dot_centres_append drawPoint_ws_def pointCentre_ws_def has_offsets_def)

text \<open>Double rounding is exact on the integers below \<open>2 ^ 53\<close>.\<close>

lemma round_half_even_of_int: "round_half_even (of_int m) = m"
  by (simp add: round_half_even_def)

lemma ulp_exponent_of_int:
  assumes "k \<noteq> 0" "\<bar>k\<bar> < 2 ^ 53"
  shows "ulp_exponent (of_int k) \<le> 0"
proof -
  have pos: "0 < \<bar>k\<bar>" using assms(1) by simp
  have b: "2 ^ nat (bitlen \<bar>k\<bar> - 1) \<le> \<bar>k\<bar>"
    using bitlen_bounds [OF pos] by simp
  have lt: "(2::int) ^ nat (bitlen \<bar>k\<bar> - 1) < 2 ^ 53"
    using b assms(2) by linarith
  have "nat (bitlen \<bar>k\<bar> - 1) < 53"
  proof (rule ccontr)
    assume "\<not> nat (bitlen \<bar>k\<bar> - 1) < 53"
    then have "53 \<le> nat (bitlen \<bar>k\<bar> - 1)" by simp
    then have "(2::int) ^ 53 \<le> 2 ^ nat (bitlen \<bar>k\<bar> - 1)"
      by (rule power_increasing) simp
    with lt show False by linarith
  qed
  then have "bitlen \<bar>k\<bar> - 1 \<le> 52" by linarith
  moreover have "(1::real) \<le> \<bar>of_int k\<bar>" using assms(1) by (simp flip: of_int_abs)
  moreover have "\<lfloor>\<bar>of_int k :: real\<bar>\<rfloor> = \<bar>k\<bar>" by (simp flip: of_int_abs)
  ultimately show ?thesis
    by (simp add: ulp_exponent_def ilog2_def)
qed

lemma to_double_of_int:
  assumes "\<bar>k\<bar> < 2 ^ 53"
  shows "to_double (of_int k) = of_int k"
proof (cases "k = 0")
  case True
  then show ?thesis by (simp add: to_double_def)
next
  case False
  define e where "e = ulp_exponent (of_int k)"
  have e: "e \<le> 0" unfolding e_def using ulp_exponent_of_int [OF False assms] .
  have p: "(2::real) powi e = 1 / 2 ^ nat (- e)"
    using e by (cases "e = 0") (simp_all add: power_int_def field_simps power_inverse [symmetric])
  have q: "of_int k / (2::real) powi e = of_int (k * 2 ^ nat (- e))"
    by (simp add: p)
  have "to_double (of_int k) = of_int (round_half_even (of_int k / 2 powi e)) * 2 powi e"
    using False by (simp add: to_double_def e_def)
  also have "\<dots> = of_int (k * 2 ^ nat (- e)) * 2 powi e"
    by (simp only: q round_half_even_of_int)
  also have "\<dots> = of_int k"
    by (simp add: p)
  finally show ?thesis .
qed

lemma jmul_int_10:
  assumes "\<bar>n\<bar> \<le> 2 ^ 49"
  shows "jmul (of_int n) 10 = of_int (10 * n)"
proof -
  have "\<bar>10 * n\<bar> < 2 ^ 53" using assms by simp
  from to_double_of_int [OF this] show ?thesis
    by (simp add: jmul_def mult.commute)
qed

lemma jdiv_int_10:
  assumes "\<bar>g\<bar> \<le> 2 ^ 49"
  shows "jdiv (of_int (10 * g)) 10 = of_int g"
proof -
  have "\<bar>g\<bar> < 2 ^ 53" using assms by simp
  from to_double_of_int [OF this] show ?thesis
    by (simp add: jdiv_def)
qed

lemma gateArcRadius_int:
  assumes "\<bar>g\<bar> \<le> 2 ^ 49"
  shows "gateArcRadius (of_int (10 * g)) = of_int g * scale"
proof -
  have "\<bar>g * 2\<bar> < 2 ^ 53" using assms by simp
  from to_double_of_int [OF this] have "to_double (of_int g * 2) = of_int g * 2"
    by simp
  then have "jmul (of_int g) scale = of_int g * scale"
    by (simp add: jmul_def scale_def)
  then show ?thesis
    by (simp only: gateArcRadius_def jdiv_int_10 [OF assms])
qed

lemma div10_int:
  assumes "\<bar>g\<bar> \<le> 2 ^ 49"
  shows "div10 (Some (of_int (10 * g))) = Some (of_int g)"
  by (simp only: div10_def option.case jdiv_int_10 [OF assms])

lemma gateArcRadius_1000: "gateArcRadius 1000 = 200"
  using gateArcRadius_int [of 100] by (simp add: scale_def)

text \<open>The doubles nearest to 0.36 and to 3.6: ten times the first rounds below the second,
  and a tenth of the second rounds to the first.\<close>

lemma rounding_example_product: "jmul (to_double (36 / 100)) 10 < to_double (36 / 10)"
  by code_simp

lemma rounding_example_quotient: "jdiv (to_double (36 / 10)) 10 = to_double (36 / 100)"
  by code_simp

lemma rounding_example_radius:
  "gateArcRadius (to_double (36 / 10)) = to_double (36 / 100) * scale"
  by code_simp

lemma dot_styles_append: "dot_styles (xs @ ys) = dot_styles xs @ dot_styles ys"
  by (induction xs rule: dot_styles.induct) simp_all

lemma arc_radii_append: "arc_radii c (xs @ ys) = arc_radii c xs @ arc_radii c ys"
  by (induction c xs rule: arc_radii.induct) simp_all

lemma dot_styles_static_points:
  "list_all has_offsets pts \<Longrightarrow>
   dot_styles (concat (map (drawPoint_static cx cy thr) pts)) = map (\<lambda>p. pointFillStyle p thr) pts"
  by (induction pts)
     (auto simp: dot_styles_append drawPoint_static_def pointCentre_static_def has_offsets_def)

lemma arc_radii_static_points:
  "arc_radii c (concat (map (drawPoint_static cx cy thr) pts)) = []"
  by (induction pts)
     (auto simp: arc_radii_append drawPoint_static_def split: option.splits)

lemma arc_radii_legend: "arc_radii c legend = []"
  by (simp add: legend_def)

section \<open>Gate-zone classification\<close>




section \<open>Threshold normalization\<close>

text \<open>
  C2, as the code has it. In \<open>part_000\<close>, \<open>part_004\<close> and \<open>part_001\<close> a successfully
  fetched payload has its raw threshold divided by 10 before it is stored (1000 becomes
  100). In \<open>static/lidar-viz.js\<close> and \<open>part_003\<close> the fetcher stores the raw threshold as
  it came (stated here for setters that return). For an integer distance and a raw threshold that is ten times an integer
  (both of magnitude up to \<open>2 ^ 49\<close>, times ten for the threshold), the classification of
  the specification on the normalized threshold agrees with \<open>isInGateArea\<close> on the raw
  one.
\<close>

theorem threshold_normalization_by_variant:
  assumes "\<not> failed (Json data)" and "\<bar>n\<bar> \<le> 2 ^ 49" and "\<bar>g\<bar> \<le> 2 ^ 49"
  shows "threshold (deliver (fetchData_part_000 (Json data)) s) = div10 (threshold_field data)
       \<and> threshold (deliver (fetchData_part_001 (Json data)) s) = div10 (threshold_field data)
       \<and> div10 (Some 1000) = Some 100
       \<and> threshold (deliver (fetchData_static Returned (Json data)) s) = threshold_field data
       \<and> isInGateZone_spec \<lparr>angle = a, distance = of_int n, x_coord = xo, y_coord = yo\<rparr>
            (div10 (Some (of_int (10 * g))))
         = isInGateArea \<lparr>angle = a, distance = of_int n, x_coord = xo, y_coord = yo\<rparr>
            (Some (of_int (10 * g)))"
proof -
  have d: "div10 (Some 1000) = Some 100"
    using div10_int [of 100] by simp
  have cls: "isInGateZone_spec \<lparr>angle = a, distance = of_int n, x_coord = xo, y_coord = yo\<rparr>
            (div10 (Some (of_int (10 * g))))
         = isInGateArea \<lparr>angle = a, distance = of_int n, x_coord = xo, y_coord = yo\<rparr>
            (Some (of_int (10 * g)))"
    unfolding div10_int [OF assms(3)]
    by (auto simp add: isInGateZone_spec_def isInGateArea_def jmul_int_10 [OF assms(2)])
  have fetch: "threshold (deliver (fetchData_part_000 (Json data)) s) = div10 (threshold_field data)
       \<and> threshold (deliver (fetchData_part_001 (Json data)) s) = div10 (threshold_field data)
       \<and> threshold (deliver (fetchData_static Returned (Json data)) s) = threshold_field data"
    using assms(1)
    by (simp add: failed_def fetchData_part_000_def fetchData_part_001_def
        fetchData_static_def deliver_def)
  from d cls fetch show ?thesis by (simp only: simp_thms)
qed

text \<open>The theorem at the payload \<open>{scan: [], threshold: 1000}\<close>, distance 99 and bearing
  5.\<close>

theorem threshold_normalization_by_variant_witness:
  "\<not> failed (Json \<lparr>error_field = None, scan = Some [], threshold_field = Some 1000\<rparr>)
   \<and> \<bar>99 :: int\<bar> \<le> 2 ^ 49 \<and> \<bar>100 :: int\<bar> \<le> 2 ^ 49
   \<and> threshold (deliver (fetchData_part_000
         (Json \<lparr>error_field = None, scan = Some [], threshold_field = Some 1000\<rparr>))
         initial_part_000) = Some 100
   \<and> threshold (deliver (fetchData_static Returned
         (Json \<lparr>error_field = None, scan = Some [], threshold_field = Some 1000\<rparr>))
         initial_static) = Some 1000
   \<and> isInGateZone_spec \<lparr>angle = 5, distance = 99, x_coord = None, y_coord = None\<rparr> (Some 100)
   \<and> isInGateArea \<lparr>angle = 5, distance = 99, x_coord = None, y_coord = None\<rparr> (Some 1000)"
proof -
  have h: "\<not> failed (Json \<lparr>error_field = None, scan = Some [], threshold_field = Some 1000\<rparr>)"
    by (simp add: failed_def truthy_def)
  have n: "\<bar>99 :: int\<bar> \<le> 2 ^ 49" and g: "\<bar>100 :: int\<bar> \<le> 2 ^ 49"
    by simp_all
  have z: "isInGateZone_spec \<lparr>angle = 5, distance = 99, x_coord = None, y_coord = None\<rparr> (Some 100)"
    by (simp add: isInGateZone_spec_def)
  show ?thesis
    using h n g z
      threshold_normalization_by_variant
        [OF h n g, where s = initial_part_000 and a = 5 and xo = None and yo = None]
      threshold_normalization_by_variant
        [OF h n g, where s = initial_static]
    by simp
qed

text \<open>Against C2 as stated: the fetcher of \<open>static/lidar-viz.js\<close> hands the raw threshold
  1000 on as 1000, not as 100; and for the double nearest to 0.36 at the raw threshold
  nearest to 3.6 the code's test on the raw values holds while the test against the
  normalized threshold does not.\<close>

theorem raw_threshold_kept_counterexample:
  "threshold (deliver (fetchData_static Returned
      (Json \<lparr>error_field = None, scan = Some [], threshold_field = Some 1000\<rparr>))
      initial_static) \<noteq> Some (1000 / 10)
   \<and> isInGateArea \<lparr>angle = 5, distance = to_double (36 / 100), x_coord = None, y_coord = None\<rparr>
        (Some (to_double (36 / 10)))
   \<and> \<not> isInGateZone_spec
        \<lparr>angle = 5, distance = to_double (36 / 100), x_coord = None, y_coord = None\<rparr>
        (div10 (Some (to_double (36 / 10))))"
  using rounding_example_product rounding_example_quotient
  by (simp add: fetchData_static_def deliver_def truthy_def isInGateArea_def
      isInGateZone_spec_def div10_def)

section \<open>Stopping the fetcher\<close>

text \<open>
  C3, as the code has it. After the cleanup (\<open>clearInterval\<close>), whatever events follow,
  the schedule issues no further request and the timer stays cleared; running the cleanup
  again changes nothing. No redraw occurs either: the drawing effect finds no canvas
  from then on and draws nothing, whatever the held state. A request that was in flight
  when the cleanup ran still runs its handler when it completes: its setter calls are
  appended to the log.
\<close>

theorem cleanup_stops_schedule:
  "issued (run handler (step handler f Cleanup) evs) = issued f
   \<and> \<not> interval_active (run handler (step handler f Cleanup) evs)
   \<and> in_flight (run handler (step handler f Cleanup) evs) \<le> in_flight f
   \<and> step handler (step handler f Cleanup) Cleanup = step handler f Cleanup
   \<and> render_static (canvasRef_static cv (run handler (step handler f Cleanup) evs) s)
         (scanData s) (threshold s) = Inr []
   \<and> render_part_000 (canvasRef_part_000 cv (run handler (step handler f Cleanup) evs)) = Inr []
   \<and> calls (step handler (step handler (call_fetchData f) Cleanup) (Completes r))
       = calls f @ handler r"
  using run_inactive [of "step handler f Cleanup" handler evs]
  by (simp add: call_fetchData_def canvasRef_static_def canvasRef_part_000_def
      render_static_def render_part_000_def)

text \<open>Against C3 as stated: in \<open>static/lidar-viz.js\<close> the request issued at mount is
  still in flight when the cleanup runs; no setter has been called then, and when the
  request completes afterwards the setters are called, for a snapshot and for a failure
  alike.\<close>

theorem in_flight_after_cleanup_counterexample:
  "calls (run (fetchData_static Returned) mount_static [Cleanup]) = []
   \<and> calls (run (fetchData_static Returned) mount_static
         [Cleanup, Completes (Json \<lparr>error_field = None, scan = Some [], threshold_field = Some 1000\<rparr>)])
       = [SetScanData (Some []), SetThreshold (Some 1000)]
   \<and> calls (run (fetchData_static Returned) mount_static [Cleanup, Completes (Thrown ''timeout'')])
       = [SetError (Some ''Failed to fetch LIDAR data: timeout'')]"
  by (simp add: run_def mount_static_def before_mount_def call_fetchData_def
      fetchData_static_def truthy_def)

section \<open>Failed fetches and the held scan data\<close>

text \<open>
  C4. A failed fetch leaves the held scan data as it was in \<open>static/lidar-viz.js\<close>,
  \<open>part_003\<close>, \<open>part_000\<close> and \<open>part_004\<close>, for a raised exception and for an error
  payload (a non-empty \<open>error\<close> string) alike, and in \<open>part_001\<close> for a raised exception.
  In \<open>part_001\<close> an error payload overwrites it: after a fetch delivering five points,
  the payload \<open>{error: 'LIDAR not connected'}\<close> leaves the empty list, where the other
  variants keep the five points.
\<close>

theorem error_payload_overwrites_scan_part_001:
  "(\<forall>s m oc. scanData (deliver (fetchData_static oc (Thrown m)) s) = scanData s
          \<and> scanData (deliver (fetchData_part_000 (Thrown m)) s) = scanData s
          \<and> scanData (deliver (fetchData_part_001 (Thrown m)) s) = scanData s)
   \<and> (\<forall>s d c cs oc.
          scanData (deliver (fetchData_static oc (Json (d\<lparr>error_field := Some (c # cs)\<rparr>))) s)
            = scanData s
          \<and> scanData (deliver (fetchData_part_000 (Json (d\<lparr>error_field := Some (c # cs)\<rparr>))) s)
            = scanData s)
   \<and> scanData (deliver (fetchData_part_001
         (Json \<lparr>error_field = None,
                scan = Some (map (\<lambda>a. \<lparr>angle = a, distance = 50, x_coord = None, y_coord = None\<rparr>)
                               [0, 72, 144, 216, 288]),
                threshold_field = Some 1000\<rparr>)) initial_part_000)
       = Some (map (\<lambda>a. \<lparr>angle = a, distance = 50, x_coord = None, y_coord = None\<rparr>)
                   [0, 72, 144, 216, 288])
   \<and> scanData (deliver (fetchData_part_001
         (Json \<lparr>error_field = Some ''LIDAR not connected'', scan = None, threshold_field = None\<rparr>))
         (deliver (fetchData_part_001
           (Json \<lparr>error_field = None,
                  scan = Some (map (\<lambda>a. \<lparr>angle = a, distance = 50, x_coord = None, y_coord = None\<rparr>)
                                 [0, 72, 144, 216, 288]),
                  threshold_field = Some 1000\<rparr>)) initial_part_000))
       = Some []
   \<and> scanData (deliver (fetchData_part_000
         (Json \<lparr>error_field = Some ''LIDAR not connected'', scan = None, threshold_field = None\<rparr>))
         (deliver (fetchData_part_000
           (Json \<lparr>error_field = None,
                  scan = Some (map (\<lambda>a. \<lparr>angle = a, distance = 50, x_coord = None, y_coord = None\<rparr>)
                                 [0, 72, 144, 216, 288]),
                  threshold_field = Some 1000\<rparr>)) initial_part_000))
       = Some (map (\<lambda>a. \<lparr>angle = a, distance = 50, x_coord = None, y_coord = None\<rparr>)
                   [0, 72, 144, 216, 288])"
  by (simp add: fetchData_static_def fetchData_part_000_def fetchData_part_001_def
      deliver_def truthy_def scan_or_empty_def)

section \<open>One outcome for each request\<close>

text \<open>
  C5. In \<open>part_000\<close> and \<open>part_004\<close> every completed request either sets an error message
  or sets the scan data and the threshold, never both and never neither. In \<open>part_001\<close>
  a raised exception sets the error message alone, but every parsed payload sets the
  scan data and the threshold, and sets an error message as well when its \<open>error\<close>
  field is truthy: the payload \<open>{error: 'LIDAR not connected'}\<close> gets both outcomes.
\<close>

theorem both_outcomes_part_001:
  "(\<forall>r. reports_error (fetchData_part_000 r) \<noteq> updates_snapshot (fetchData_part_000 r))
   \<and> (\<forall>m. reports_error (fetchData_part_001 (Thrown m))
            \<and> \<not> updates_snapshot (fetchData_part_001 (Thrown m)))
   \<and> (\<forall>d. updates_snapshot (fetchData_part_001 (Json d))
            \<and> reports_error (fetchData_part_001 (Json d)) = truthy (error_field d))
   \<and> fetchData_part_001
         (Json \<lparr>error_field = Some ''LIDAR not connected'', scan = None, threshold_field = None\<rparr>)
       = [SetError (Some ''LIDAR not connected''), SetScanData (Some []), SetThreshold None]
   \<and> fetchData_part_000
         (Json \<lparr>error_field = Some ''LIDAR not connected'', scan = None, threshold_field = None\<rparr>)
       = [SetError (Some ''LIDAR not connected'')]"
  by (auto simp: fetchData_part_000_def fetchData_part_001_def
      reports_error_def updates_snapshot_def truthy_def scan_or_empty_def div10_def
      split: response.splits option.splits)

section \<open>The held error message\<close>

text \<open>
  C6. The state holds one error message or none, and a failed fetch replaces whatever
  was held by its own message. A successful fetch sets the error back to \<open>null\<close> in
  \<open>part_000\<close>, \<open>part_004\<close> and \<open>part_001\<close>. In \<open>static/lidar-viz.js\<close> and \<open>part_003\<close> it does
  not: after the failure \<open>timeout\<close>, the payload \<open>{scan: [], threshold: 1000}\<close> leaves the
  failure's message in place, where the other variants hold no error; no payload
  without an \<open>error\<close> field ever resets it there.
\<close>

theorem error_never_cleared_static:
  "error (deliver (fetchData_static Returned
      (Json \<lparr>error_field = None, scan = Some [], threshold_field = Some 1000\<rparr>))
      (deliver (fetchData_static Returned (Thrown ''timeout'')) initial_static))
     = Some ''Failed to fetch LIDAR data: timeout''
   \<and> error (deliver (fetchData_part_000
        (Json \<lparr>error_field = None, scan = Some [], threshold_field = Some 1000\<rparr>))
        (deliver (fetchData_part_000 (Thrown ''timeout'')) initial_part_000)) = None
   \<and> error (deliver (fetchData_part_001
        (Json \<lparr>error_field = None, scan = Some [], threshold_field = Some 1000\<rparr>))
        (deliver (fetchData_part_001 (Thrown ''timeout'')) initial_part_000)) = None
   \<and> (\<forall>d s. error (deliver (fetchData_static Returned (Json (d\<lparr>error_field := None\<rparr>))) s)
              = error s)
   \<and> (\<forall>d s m. error (deliver (fetchData_static (Raised m) (Json (d\<lparr>error_field := None\<rparr>))) s)
              = Some (''Failed to fetch LIDAR data: '' @ m))
   \<and> (\<forall>d s. error (deliver (fetchData_part_000 (Json (d\<lparr>error_field := None\<rparr>))) s) = None
            \<and> error (deliver (fetchData_part_001 (Json (d\<lparr>error_field := None\<rparr>))) s) = None)
   \<and> (\<forall>s m oc. error (deliver (fetchData_static oc (Thrown m)) s)
                = Some (''Failed to fetch LIDAR data: '' @ m)
              \<and> error (deliver (fetchData_part_000 (Thrown m)) s)
                = Some ''Failed to fetch LIDAR data''
              \<and> error (deliver (fetchData_part_001 (Thrown m)) s)
                = Some ''Failed to fetch LIDAR data'')
   \<and> (\<forall>s d c cs oc.
          error (deliver (fetchData_static oc (Json (d\<lparr>error_field := Some (c # cs)\<rparr>))) s)
            = Some (c # cs)
          \<and> error (deliver (fetchData_part_000 (Json (d\<lparr>error_field := Some (c # cs)\<rparr>))) s)
            = Some (c # cs)
          \<and> error (deliver (fetchData_part_001 (Json (d\<lparr>error_field := Some (c # cs)\<rparr>))) s)
            = Some (c # cs))"
  by (simp add: fetchData_static_def fetchData_part_000_def fetchData_part_001_def
      deliver_def truthy_def initial_static_def initial_part_000_def)

section \<open>The first request\<close>

text \<open>
  C7, as the code has it. Mounting \<open>static/lidar-viz.js\<close> or \<open>part_003\<close> issues one
  request at once and starts the timer. Mounting \<open>part_000\<close>, \<open>part_001\<close> or \<open>part_004\<close>
  starts the timer and issues no request; the first one is issued by the first tick.
\<close>

theorem first_request_by_variant:
  "issued mount_static = 1 \<and> in_flight mount_static = 1 \<and> interval_active mount_static
   \<and> issued mount_part_000 = 0 \<and> interval_active mount_part_000
   \<and> issued (step handler mount_part_000 Tick) = 1"
  by (simp add: mount_static_def mount_part_000_def before_mount_def call_fetchData_def)

text \<open>Against C7 as stated: right after the mount of \<open>part_000\<close> no request has been
  issued and none is in flight.\<close>

theorem no_immediate_request_counterexample:
  "issued mount_part_000 = 0 \<and> in_flight mount_part_000 = 0"
  by (simp add: mount_part_000_def before_mount_def)

section \<open>The vertical axis\<close>

text \<open>
  C8, as the code has it. When every point carries its offsets \<open>x\<close> and \<open>y\<close>, a render
  pass that completes draws one dot for each point, in order: at
  \<open>(centerX + x * scale, centerY - y * scale)\<close> in \<open>static/lidar-viz.js\<close> and \<open>part_003\<close>,
  and at \<open>(centerX + x * scale, centerY + y * scale)\<close> in \<open>lidar-viz.js\<close> and \<open>part_001\<close>.
  Within one renderer the same conversion is applied to every point.
\<close>

theorem vertical_axis_by_variant:
  assumes "list_all has_offsets pts"
  shows "(case render_static (Some cv) (Some pts) thr of
            Inl e \<Rightarrow> True
          | Inr ops \<Rightarrow> dot_centres ops =
              map (\<lambda>p. (width cv / 2 + the (x_coord p) * scale,
                         height cv / 2 - the (y_coord p) * scale)) pts)
       \<and> (case render_ws (Some cv) pts t of
            Inl e \<Rightarrow> True
          | Inr ops \<Rightarrow> dot_centres ops =
              map (\<lambda>p. (width cv / 2 + the (x_coord p) * scale,
                         height cv / 2 + the (y_coord p) * scale)) pts)
       \<and> (case render_part_001 (Some cv) (Some pts) thr of
            Inl e \<Rightarrow> True
          | Inr ops \<Rightarrow> dot_centres ops =
              map (\<lambda>p. (width cv / 2 + the (x_coord p) * scale,
                         height cv / 2 + the (y_coord p) * scale)) pts)"
proof (intro conjI)
  show "case render_static (Some cv) (Some pts) thr of
            Inl e \<Rightarrow> True
          | Inr ops \<Rightarrow> dot_centres ops =
              map (\<lambda>p. (width cv / 2 + the (x_coord p) * scale,
                         height cv / 2 - the (y_coord p) * scale)) pts"
    using assms
    by (auto simp: render_static_def Let_def dot_centres_append dot_centres_legend
        dot_centres_gateArcs dot_centres_static_points split: sum.splits)
next
  show "case render_ws (Some cv) pts t of
            Inl e \<Rightarrow> True
          | Inr ops \<Rightarrow> dot_centres ops =
              map (\<lambda>p. (width cv / 2 + the (x_coord p) * scale,
                         height cv / 2 + the (y_coord p) * scale)) pts"
    using assms
    by (auto simp: render_ws_def Let_def dot_centres_append dot_centres_grid_loop
        thresholdCircle_def detectionZone_def dot_centres_ws_points)
next
  show "case render_part_001 (Some cv) (Some pts) thr of
            Inl e \<Rightarrow> True
          | Inr ops \<Rightarrow> dot_centres ops =
              map (\<lambda>p. (width cv / 2 + the (x_coord p) * scale,
                         height cv / 2 + the (y_coord p) * scale)) pts"
    using assms
    by (auto simp: render_part_001_def Let_def dot_centres_append dot_centres_grid_loop
        thresholdCircle_def detectionZone_def dot_centres_ws_points split: option.splits)
qed

text \<open>The theorem at one point with \<open>x = 0\<close>, \<open>y = 10\<close> on an 800 by 800 canvas: both
  passes complete, the dot is at height 380 in \<open>static/lidar-viz.js\<close> and at height 420
  in \<open>lidar-viz.js\<close>.\<close>

theorem vertical_axis_by_variant_witness:
  "list_all has_offsets [\<lparr>angle = 90, distance = 10, x_coord = Some 0, y_coord = Some 10\<rparr>]
   \<and> (case render_static (Some \<lparr>width = 800, height = 800\<rparr>)
              (Some [\<lparr>angle = 90, distance = 10, x_coord = Some 0, y_coord = Some 10\<rparr>])
              (Some 1000) of
         Inl e \<Rightarrow> False
       | Inr ops \<Rightarrow> dot_centres ops = [(400, 380)])
   \<and> (case render_ws (Some \<lparr>width = 800, height = 800\<rparr>)
              [\<lparr>angle = 90, distance = 10, x_coord = Some 0, y_coord = Some 10\<rparr>] 100 of
         Inl e \<Rightarrow> False
       | Inr ops \<Rightarrow> dot_centres ops = [(400, 420)])"
proof -
  have h: "list_all has_offsets [\<lparr>angle = 90, distance = 10, x_coord = Some 0, y_coord = Some 10\<rparr>]"
    by (simp add: has_offsets_def)
  have s: "\<exists>ops. render_static (Some \<lparr>width = 800, height = 800\<rparr>)
              (Some [\<lparr>angle = 90, distance = 10, x_coord = Some 0, y_coord = Some 10\<rparr>])
              (Some 1000) = Inr ops"
    by (simp add: render_static_def Let_def gateArcs_def gateArcRadius_1000)
  have w: "\<exists>ops. render_ws (Some \<lparr>width = 800, height = 800\<rparr>)
              [\<lparr>angle = 90, distance = 10, x_coord = Some 0, y_coord = Some 10\<rparr>] 100 = Inr ops"
    by (simp add: render_ws_def Let_def scale_def)
  show ?thesis
    using h s w
      vertical_axis_by_variant [OF h, of "\<lparr>width = 800, height = 800\<rparr>" "Some 1000" 100]
    by (auto simp: scale_def split: sum.splits)
qed

text \<open>Against C8 as stated: in \<open>lidar-viz.js\<close> and \<open>part_001\<close> the point with \<open>y = 10\<close> on
  a canvas centred at 300 gets the screen height 320, which is \<open>centerY + y * scale\<close> and
  not \<open>centerY - y * scale\<close>.\<close>

theorem no_reflection_counterexample:
  "pointCentre_ws 300 300 \<lparr>angle = 90, distance = 10, x_coord = Some 0, y_coord = Some 10\<rparr>
     = Some (300, 320)
   \<and> pointCentre_ws 300 300 \<lparr>angle = 90, distance = 10, x_coord = Some 0, y_coord = Some 10\<rparr>
     \<noteq> Some (300, 300 - 10 * scale)"
  by (simp add: pointCentre_ws_def scale_def)

section \<open>Rendering without a snapshot\<close>

text \<open>
  C9, as the code has it. Without a drawing surface every renderer returns at once and
  draws nothing. With a surface and the state before the first snapshot,
  \<open>static/lidar-viz.js\<close> and \<open>part_003\<close> complete and draw the background, the four
  reference circles, the two gate arcs at the initial threshold and the legend, and no
  dot; \<open>lidar-viz.js\<close> returns at once for an empty scan and draws nothing, not even the
  background.
\<close>

theorem render_without_snapshot:
  "render_static None sd thr = Inr []
   \<and> render_ws None pts t = Inr []
   \<and> render_part_001 None sd thr = Inr []
   \<and> render_ws (Some cv) [] t = Inr []
   \<and> render_static (Some cv) (scanData initial_static) (threshold initial_static)
       = Inr ([FillRect ''#f8f9fa'' 0 0 (width cv) (height cv),
               StrokeArc ''#dee2e6'' 1 (width cv / 2) (height cv / 2) 100 0 (2 * pi),
               StrokeArc ''#dee2e6'' 1 (width cv / 2) (height cv / 2) 200 0 (2 * pi),
               StrokeArc ''#dee2e6'' 1 (width cv / 2) (height cv / 2) 300 0 (2 * pi),
               StrokeArc ''#dee2e6'' 1 (width cv / 2) (height cv / 2) 400 0 (2 * pi),
               StrokeArc ''#ffc107'' 1 (width cv / 2) (height cv / 2) 200 (- pi / 18) (pi / 18),
               StrokeArc ''#ffc107'' 1 (width cv / 2) (height cv / 2) 200
                 (pi - pi / 18) (pi + pi / 18)] @ legend)"
  by (simp add: render_static_def render_ws_def render_part_001_def initial_static_def Let_def
      gateArcs_def gateArcRadius_1000 scale_def)

text \<open>Against C9 as stated: with a 600 by 600 canvas and an empty scan, \<open>lidar-viz.js\<close>
  draws neither background nor grid.\<close>

theorem nothing_drawn_counterexample:
  "render_ws (Some \<lparr>width = 600, height = 600\<rparr>) [] 100 = Inr []"
  by (simp add: render_ws_def)

section \<open>The colour boundary and the gate arc\<close>

text \<open>
  C10, as the code has it. In a render pass of \<open>static/lidar-viz.js\<close> or \<open>part_003\<close> that
  draws the gate arcs (their radius is not negative), every point that carries its
  offsets gets one dot, filled in the in-zone colour exactly when its bearing is in the
  cone and the double product \<open>point.distance * 10\<close> is strictly below the held
  threshold, and the two gate arcs are stroked at the radius \<open>threshold / 10 * scale\<close>.
  For an integer distance and a threshold that is ten times an integer (magnitudes up
  to \<open>2 ^ 49\<close>), that radius is a tenth of the threshold at the display scale, and the
  point has the in-zone colour exactly when it is in the cone and its distance, at the
  display scale, is strictly inside the radius of the arcs.
\<close>

theorem gate_colour_in_render:
  assumes "list_all has_offsets pts" and "0 \<le> gateArcRadius t"
    and "\<bar>n\<bar> \<le> 2 ^ 49" and "\<bar>g\<bar> \<le> 2 ^ 49"
  shows "(\<exists>ops. render_static (Some cv) (Some pts) (Some t) = Inr ops
            \<and> dot_styles ops =
                map (\<lambda>p. if (angle p < 10 \<or> angle p > 350) \<and> jmul (distance p) 10 < t
                          then ''#dc3545'' else ''#0d6efd'') pts
            \<and> arc_radii ''#ffc107'' ops = [gateArcRadius t, gateArcRadius t])
       \<and> gateArcRadius (of_int (10 * g)) = of_int g * scale
       \<and> (pointFillStyle \<lparr>angle = a, distance = of_int n, x_coord = xo, y_coord = yo\<rparr>
              (Some (of_int (10 * g))) = ''#dc3545'')
           = ((a < 10 \<or> a > 350) \<and> of_int n * scale < gateArcRadius (of_int (10 * g)))"
proof -
  have styles: "map (\<lambda>p. pointFillStyle p (Some t)) pts =
      map (\<lambda>p. if (angle p < 10 \<or> angle p > 350) \<and> jmul (distance p) 10 < t
                then ''#dc3545'' else ''#0d6efd'') pts"
    by (simp add: pointFillStyle_def isInGateArea_def)
  have pass: "\<exists>ops. render_static (Some cv) (Some pts) (Some t) = Inr ops
            \<and> dot_styles ops =
                map (\<lambda>p. if (angle p < 10 \<or> angle p > 350) \<and> jmul (distance p) 10 < t
                          then ''#dc3545'' else ''#0d6efd'') pts
            \<and> arc_radii ''#ffc107'' ops = [gateArcRadius t, gateArcRadius t]"
    using assms(2) styles
    by (simp add: render_static_def Let_def gateArcs_def dot_styles_append arc_radii_append
        dot_styles_static_points [OF assms(1)] arc_radii_static_points arc_radii_legend
        legend_def)
  have colour: "(pointFillStyle \<lparr>angle = a, distance = of_int n, x_coord = xo, y_coord = yo\<rparr>
              (Some (of_int (10 * g))) = ''#dc3545'')
           = ((a < 10 \<or> a > 350) \<and> of_int n * scale < gateArcRadius (of_int (10 * g)))"
    unfolding gateArcRadius_int [OF assms(4)]
    by (auto simp add: pointFillStyle_def isInGateArea_def jmul_int_10 [OF assms(3)] scale_def)
  from pass gateArcRadius_int [OF assms(4)] colour show ?thesis by (simp only: simp_thms)
qed

text \<open>The theorem on an 800 by 800 canvas at the held threshold 1000, with two points at
  the bearing 5: the one at distance 99 is drawn in the in-zone colour, the one at
  distance 100 in the other, and both arcs have the radius 200.\<close>

theorem gate_colour_in_render_witness:
  "list_all has_offsets
      [\<lparr>angle = 5, distance = 99, x_coord = Some 99, y_coord = Some 0\<rparr>,
       \<lparr>angle = 5, distance = 100, x_coord = Some 100, y_coord = Some 0\<rparr>]
   \<and> 0 \<le> gateArcRadius 1000 \<and> \<bar>99 :: int\<bar> \<le> 2 ^ 49 \<and> \<bar>100 :: int\<bar> \<le> 2 ^ 49
   \<and> (\<exists>ops. render_static (Some \<lparr>width = 800, height = 800\<rparr>)
              (Some [\<lparr>angle = 5, distance = 99, x_coord = Some 99, y_coord = Some 0\<rparr>,
                     \<lparr>angle = 5, distance = 100, x_coord = Some 100, y_coord = Some 0\<rparr>])
              (Some 1000) = Inr ops
            \<and> dot_styles ops = [''#dc3545'', ''#0d6efd'']
            \<and> arc_radii ''#ffc107'' ops = [200, 200])"
proof -
  have h: "list_all has_offsets
      [\<lparr>angle = 5, distance = 99, x_coord = Some 99, y_coord = Some 0\<rparr>,
       \<lparr>angle = 5, distance = 100, x_coord = Some 100, y_coord = Some 0\<rparr>]"
    by (simp add: has_offsets_def)
  have r: "0 \<le> gateArcRadius 1000" by (simp add: gateArcRadius_1000)
  have n: "\<bar>99 :: int\<bar> \<le> 2 ^ 49" and g: "\<bar>100 :: int\<bar> \<le> 2 ^ 49"
    by simp_all
  have p99: "jmul 99 10 = 990" using jmul_int_10 [of 99] by simp
  have p100: "jmul 100 10 = 1000" using jmul_int_10 [of 100] by simp
  show ?thesis
    using h r n g
      gate_colour_in_render [OF h r n g, of "\<lparr>width = 800, height = 800\<rparr>"]
    by (simp add: p99 p100 gateArcRadius_1000)
qed

text \<open>Against C10 as stated: the double nearest to 0.36, at the bearing 5 and the
  threshold nearest to 3.6, is filled in the in-zone colour although it is not below
  \<open>threshold / 10\<close> and lies on the gate arc.\<close>

theorem colour_boundary_rounding_counterexample:
  "pointFillStyle \<lparr>angle = 5, distance = to_double (36 / 100), x_coord = None, y_coord = None\<rparr>
      (Some (to_double (36 / 10))) = ''#dc3545''
   \<and> \<not> to_double (36 / 100) < jdiv (to_double (36 / 10)) 10
   \<and> to_double (36 / 100) * scale = gateArcRadius (to_double (36 / 10))"
  using rounding_example_product rounding_example_quotient rounding_example_radius
  by (simp add: pointFillStyle_def isInGateArea_def)

end
